theory Spec2Isabelle
  imports Main
begin

section \<open>The bootstrap helper \<open>scripts/git_tools.py\<close>\<close>

text \<open>
  The script is straight-line orchestration of child processes, console output and one
  file write. Its effects are made explicit: a program is a function from a state to a
  result and a new state, where the result is either a raised Python exception
  (\<open>Inl\<close>) or a returned value (\<open>Inr\<close>). The state holds the ordered log of
  everything the script does to the outside (lines printed, child processes started,
  files written) and the outside world itself, which child processes may change.
\<close>

subsection \<open>Data\<close>

type_synonym cmd = "string list"

text \<open>How a child's standard streams are set up: inherited from the script
  (\<open>subprocess.run(cmd)\<close>) or discarded (\<open>stdout=DEVNULL, stderr=DEVNULL\<close>).\<close>

datatype stdio = Inherit | Devnull

text \<open>What starting a child yields: the child ran and exited with a return code, or
  \<open>subprocess.run\<close> raised before any return code existed (for example
  \<open>FileNotFoundError\<close> when the binary is missing).\<close>

datatype proc_outcome = Exited int | ExecFailed

text \<open>The argument of \<open>SystemExit\<close>: an integer status or a message.\<close>

datatype exit_arg = Code int | Msg string

text \<open>The exceptions that occur. \<open>SystemExit\<close> derives from \<open>BaseException\<close>
  only; the others derive from \<open>Exception\<close>.\<close>

datatype exn =
    SystemExit exit_arg
  | CalledProcessError int cmd
  | OSError
  | IndexError

fun is_Exception :: "exn \<Rightarrow> bool" where
  "is_Exception (SystemExit a) = False"
| "is_Exception (CalledProcessError rc c) = True"
| "is_Exception OSError = True"
| "is_Exception IndexError = True"

datatype event =
    Print string
  | Spawn cmd stdio
  | WriteText string string

record 'w world =
  files :: "string \<rightharpoonup> string"
  ext :: 'w

text \<open>The host the script runs on: \<open>sys.executable\<close>, and what starting a command
  does there. The outcome may depend on the whole world and may change it.\<close>

record 'w host =
  executable :: string
  spawn :: "cmd \<Rightarrow> stdio \<Rightarrow> 'w world \<Rightarrow> proc_outcome \<times> 'w world"

record 'w state =
  log :: "event list"
  world :: "'w world"

type_synonym ('w, 'a) prog = "'w state \<Rightarrow> (exn + 'a) \<times> 'w state"

subsection \<open>Sequencing, raising, primitive effects\<close>

definition return_py :: "'a \<Rightarrow> ('w, 'a) prog" where
  "return_py x s = (Inr x, s)"

definition raise_py :: "exn \<Rightarrow> ('w, 'a) prog" where
  "raise_py e s = (Inl e, s)"

text \<open>Statement sequencing: an exception raised by the first part skips the rest and
  keeps the effects performed so far.\<close>

definition bind_py :: "('w, 'a) prog \<Rightarrow> ('a \<Rightarrow> ('w, 'b) prog) \<Rightarrow> ('w, 'b) prog" where
  "bind_py m f s = (case m s of (Inl e, s') \<Rightarrow> (Inl e, s') | (Inr x, s') \<Rightarrow> f x s')"

definition print_line :: "string \<Rightarrow> ('w, unit) prog" where
  "print_line l s = (Inr (), s\<lparr>log := log s @ [Print l]\<rparr>)"

text \<open>\<open>sep.join(xs)\<close>\<close>

fun join :: "string \<Rightarrow> string list \<Rightarrow> string" where
  "join sep [] = []"
| "join sep [x] = x"
| "join sep (x # y # ys) = x @ sep @ join sep (y # ys)"

text \<open>\<open>xs[i]\<close> for a non-negative index: \<open>IndexError\<close> out of range.\<close>

definition index_py :: "'a list \<Rightarrow> nat \<Rightarrow> ('w, 'a) prog" where
  "index_py xs i = (if i < length xs then return_py (xs ! i) else raise_py IndexError)"

text \<open>\<open>subprocess.run(cmd, ..., check=check)\<close>: the child is started, the world moves on,
  and the return code comes back; with \<open>check\<close> a non-zero return code raises
  \<open>CalledProcessError\<close>.\<close>

definition subprocess_run :: "'w host \<Rightarrow> cmd \<Rightarrow> stdio \<Rightarrow> bool \<Rightarrow> ('w, int) prog" where
  "subprocess_run h c io check s =
     (case spawn h c io (world s) of
        (r, w') \<Rightarrow>
          (let s' = s\<lparr>log := log s @ [Spawn c io], world := w'\<rparr>
           in case r of
                ExecFailed \<Rightarrow> (Inl OSError, s')
              | Exited rc \<Rightarrow>
                  if check \<and> rc \<noteq> 0 then (Inl (CalledProcessError rc c), s')
                  else (Inr rc, s')))"

text \<open>\<open>Path(p).exists()\<close> and \<open>Path(p).write_text(content)\<close>\<close>

definition path_exists :: "string \<Rightarrow> ('w, bool) prog" where
  "path_exists p s = (Inr (files (world s) p \<noteq> None), s)"

definition write_text :: "string \<Rightarrow> string \<Rightarrow> ('w, unit) prog" where
  "write_text p content s =
     (Inr (), s\<lparr>log := log s @ [WriteText p content],
                world := (world s)\<lparr>files := (files (world s))(p \<mapsto> content)\<rparr>\<rparr>)"

subsection \<open>The functions of the script\<close>

definition run :: "'w host \<Rightarrow> cmd \<Rightarrow> bool \<Rightarrow> ('w, int) prog" where
  "run h c check =
     bind_py (print_line (''>>>'' @ '' '' @ join '' '' c)) (\<lambda>_.
     bind_py (subprocess_run h c Inherit False) (\<lambda>rc.
       if check \<and> rc \<noteq> 0 then raise_py (SystemExit (Code rc))
       else return_py rc))"

definition has_cmd :: "'w host \<Rightarrow> cmd \<Rightarrow> ('w, bool) prog" where
  "has_cmd h c s =
     (case subprocess_run h c Devnull True s of
        (Inr rc, s') \<Rightarrow> (Inr True, s')
      | (Inl e, s') \<Rightarrow> if is_Exception e then (Inr False, s') else (Inl e, s'))"

definition pip_install :: "'w host \<Rightarrow> string \<Rightarrow> ('w, unit) prog" where
  "pip_install h pkg =
     bind_py (run h [executable h, ''-m'', ''pip'', ''install'', ''-U'', pkg] True) (\<lambda>_.
     return_py ())"

definition needed :: "(string \<times> cmd) list" where
  "needed =
     [(''pre-commit'', [''pre-commit'', ''--version'']),
      (''nbstripout'', [''python'', ''-c'', ''import nbstripout'']),
      (''nbautoexport'', [''nbautoexport'', ''--help''])]"

text \<open>The body of the loop over \<open>needed\<close>.\<close>

definition ensure_pip_packages_body :: "'w host \<Rightarrow> string \<times> cmd \<Rightarrow> ('w, unit) prog" where
  "ensure_pip_packages_body h = (\<lambda>(pkg, probe).
     bind_py (index_py probe 0) (\<lambda>p0.
     bind_py (if p0 \<noteq> ''python'' then has_cmd h probe
              else bind_py (index_py probe 2) (\<lambda>p2. has_cmd h [executable h, ''-c'', p2])) (\<lambda>ok.
       if ok then print_line (''>>> '' @ pkg @ '' already available'')
       else bind_py (print_line (''>>> Installing '' @ pkg)) (\<lambda>_. pip_install h pkg))))"

fun ensure_pip_packages_loop :: "'w host \<Rightarrow> (string \<times> cmd) list \<Rightarrow> ('w, unit) prog" where
  "ensure_pip_packages_loop h [] = return_py ()"
| "ensure_pip_packages_loop h (x # xs) =
     bind_py (ensure_pip_packages_body h x) (\<lambda>_. ensure_pip_packages_loop h xs)"

definition ensure_pip_packages :: "'w host \<Rightarrow> ('w, unit) prog" where
  "ensure_pip_packages h =
     bind_py (run h [executable h, ''-m'', ''pip'', ''install'', ''-U'', ''pip''] False) (\<lambda>_.
     ensure_pip_packages_loop h needed)"

definition ensure_git_repo :: "'w host \<Rightarrow> ('w, unit) prog" where
  "ensure_git_repo h =
     bind_py (has_cmd h [''git'', ''--version'']) (\<lambda>ok.
       if \<not> ok then raise_py (SystemExit (Msg ''ERROR: git is not installed or not in PATH.''))
       else
     bind_py (has_cmd h [''git'', ''rev-parse'', ''--is-inside-work-tree'']) (\<lambda>inside.
       if inside then print_line ''>>> git already initialized''
       else bind_py (run h [''git'', ''init''] True) (\<lambda>_. return_py ())))"

definition cfg :: string where
  "cfg = ''.pre-commit-config.yaml''"

definition write_precommit_config :: "('w, unit) prog" where
  "write_precommit_config =
     bind_py (path_exists cfg) (\<lambda>present.
       if present then print_line ''>>> .pre-commit-config.yaml already exists''
       else
     bind_py (write_text cfg
                (join [CHR 0x0A]
                   [''repos:'',
                    ''  - repo: https://github.com/kynan/nbstripout'',
                    ''    rev: 0.6.1'',
                    ''    hooks:'',
                    ''      - id: nbstripout'',
                    ''''])) (\<lambda>_.
     print_line ''>>> wrote .pre-commit-config.yaml''))"

definition install_hooks_and_configure :: "'w host \<Rightarrow> ('w, unit) prog" where
  "install_hooks_and_configure h =
     bind_py (has_cmd h [''pre-commit'', ''--version'']) (\<lambda>ok.
     bind_py (if ok then bind_py (run h [''pre-commit'', ''install''] False) (\<lambda>_. return_py ())
              else print_line ''>>> pre-commit still not available, skipping install'') (\<lambda>_.
     bind_py (has_cmd h [''nbautoexport'', ''--help'']) (\<lambda>ok2.
       if ok2 then
         bind_py (run h [''nbautoexport'', ''configure'', ''-f'', ''script'', ''notebooks''] False)
           (\<lambda>_. return_py ())
       else print_line ''>>> nbautoexport still not available, skipping configure'')))"

definition main :: "'w host \<Rightarrow> ('w, unit) prog" where
  "main h =
     bind_py (ensure_pip_packages h) (\<lambda>_.
     bind_py (ensure_git_repo h) (\<lambda>_.
     bind_py write_precommit_config (\<lambda>_.
     bind_py (install_hooks_and_configure h) (\<lambda>_.
     print_line ''>>> git_tools done''))))"

text \<open>What the interpreter does when \<open>main()\<close> ends, as the Python reference documents
  it: normal return is status 0; \<open>SystemExit\<close> with an integer exits with that integer;
  \<open>SystemExit\<close> with a string prints the string to standard error and exits with 1; any
  other uncaught exception prints a traceback and exits with 1. (The truncation of the
  status by the operating system is not modelled.)\<close>

fun exit_status :: "exn + unit \<Rightarrow> int" where
  "exit_status (Inr u) = 0"
| "exit_status (Inl (SystemExit (Code n))) = n"
| "exit_status (Inl (SystemExit (Msg m))) = 1"
| "exit_status (Inl e) = 1"

fun exit_message :: "exn + unit \<Rightarrow> string option" where
  "exit_message (Inl (SystemExit (Msg m))) = Some m"
| "exit_message r = None"

subsection \<open>Reading the log\<close>

text \<open>What a step added to the log, the commands among some events (all of them, and
  those started with discarded streams, which only \<open>has_cmd\<close> does), and the two
  commands the loop over \<open>needed\<close> builds: the one handed to \<open>has_cmd\<close> and the one
  handed to \<open>run\<close> by \<open>pip_install\<close>.\<close>

definition new_events :: "'w state \<Rightarrow> 'w state \<Rightarrow> event list" where
  "new_events s s' = drop (length (log s)) (log s')"

fun spawned :: "event list \<Rightarrow> cmd list" where
  "spawned [] = []"
| "spawned (Spawn c io # es) = c # spawned es"
| "spawned (e # es) = spawned es"

fun probes_of :: "event list \<Rightarrow> cmd list" where
  "probes_of [] = []"
| "probes_of (Spawn c Devnull # es) = c # probes_of es"
| "probes_of (e # es) = probes_of es"

definition probe_command :: "'w host \<Rightarrow> cmd \<Rightarrow> cmd" where
  "probe_command h probe =
     (if probe ! 0 \<noteq> ''python'' then probe else [executable h, ''-c'', probe ! 2])"

definition pip_command :: "'w host \<Rightarrow> string \<Rightarrow> cmd" where
  "pip_command h pkg = [executable h, ''-m'', ''pip'', ''install'', ''-U'', pkg]"

text \<open>A probe on which the loop body raises no \<open>IndexError\<close>: it has a first element,
  and a third one when the first is \<open>python\<close>.\<close>

definition well_formed_probe :: "cmd \<Rightarrow> bool" where
  "well_formed_probe probe =
     (if probe = [] then False
      else if probe ! 0 = ''python'' then 2 < length probe
      else True)"

text \<open>The probes of a run of the loop over \<open>needed\<close> that installs nothing or whose
  installs all succeed.\<close>

definition issued_probes :: "'w host \<Rightarrow> cmd list" where
  "issued_probes h =
     [[''pre-commit'', ''--version''],
      [executable h, ''-c'', ''import nbstripout''],
      [''nbautoexport'', ''--help'']]"

text \<open>Echoing: in a list of events, every child whose stream setup is selected by
  \<open>must\<close> comes directly after the line \<open>>>> \<close> plus its words joined by spaces.\<close>

fun echoed :: "(stdio \<Rightarrow> bool) \<Rightarrow> event list \<Rightarrow> bool" where
  "echoed must [] = True"
| "echoed must (Print l # Spawn c io # es) =
     ((if must io then l = ''>>> '' @ join '' '' c else True) \<and> echoed must es)"
| "echoed must (Spawn c io # es) = ((if must io then False else True) \<and> echoed must es)"
| "echoed must (e # es) = echoed must es"

definition every_command :: "stdio \<Rightarrow> bool" where
  "every_command io = True"

definition run_commands :: "stdio \<Rightarrow> bool" where
  "run_commands io = (io = Inherit)"

text \<open>A program only appends to the log, and what it appends satisfies \<open>P\<close>.\<close>

definition grows :: "(event list \<Rightarrow> bool) \<Rightarrow> ('w, 'a) prog \<Rightarrow> bool" where
  "grows P m = (\<forall>s. \<exists>evs. log (snd (m s)) = log s @ evs \<and> P evs)"

subsection \<open>The words of the specification\<close>

text \<open>The specification gives the content of the created file as five lines of text;
  as a file, each line ends with a newline.\<close>

definition spec_payload :: string where
  "spec_payload =
     concat (map (\<lambda>l. l @ [CHR 0x0A])
       [''repos:'',
        ''  - repo: https://github.com/kynan/nbstripout'',
        ''    rev: 0.6.1'',
        ''    hooks:'',
        ''      - id: nbstripout''])"

text \<open>The kinds of probe the specification names: a tool called with its version flag,
  a tool called with its help flag, and an interpreter given an import statement.\<close>

definition version_flag_probe :: "cmd \<Rightarrow> bool" where
  "version_flag_probe c = (case c of [tool, flag] \<Rightarrow> flag = ''--version'' | _ \<Rightarrow> False)"

definition help_flag_probe :: "cmd \<Rightarrow> bool" where
  "help_flag_probe c = (case c of [tool, flag] \<Rightarrow> flag = ''--help'' | _ \<Rightarrow> False)"

definition import_check_probe :: "cmd \<Rightarrow> bool" where
  "import_check_probe c =
     (case c of [interpreter, flag, code] \<Rightarrow> flag = ''-c'' \<and> take 7 code = ''import ''
      | _ \<Rightarrow> False)"

subsection \<open>Concrete hosts and states\<close>

text \<open>A host whose commands behave the same whenever they are started, and a state with
  an empty log over a given set of files.\<close>

definition host_of :: "(cmd \<Rightarrow> stdio \<Rightarrow> proc_outcome) \<Rightarrow> unit host" where
  "host_of f = \<lparr>executable = ''/usr/bin/python3'', spawn = (\<lambda>c io w. (f c io, w))\<rparr>"

definition state_with :: "(string \<rightharpoonup> string) \<Rightarrow> unit state" where
  "state_with fs = \<lparr>log = [], world = \<lparr>files = fs, ext = ()\<rparr>\<rparr>"

text \<open>Everything is installed and every command succeeds.\<close>

definition host_all_present :: "unit host" where
  "host_all_present = host_of (\<lambda>c io. Exited 0)"

text \<open>The directory is not a working tree and \<open>git init\<close> fails with status 7.\<close>

definition host_git_init_fails :: "unit host" where
  "host_git_init_fails =
     host_of (\<lambda>c io. if c = [''git'', ''rev-parse'', ''--is-inside-work-tree''] then Exited 128
                      else if c = [''git'', ''init''] then Exited 7
                      else Exited 0)"

text \<open>There is no git binary.\<close>

definition host_no_git :: "unit host" where
  "host_no_git = host_of (\<lambda>c io. if take 1 c = [''git''] then ExecFailed else Exited 0)"

text \<open>\<open>pre-commit install\<close> and \<open>nbautoexport configure\<close> fail.\<close>

definition host_hooks_fail :: "unit host" where
  "host_hooks_fail =
     host_of (\<lambda>c io. if c = [''pre-commit'', ''install''] then Exited 1
                      else if c = [''nbautoexport'', ''configure'', ''-f'', ''script'', ''notebooks'']
                      then Exited 2
                      else Exited 0)"

text \<open>The log of \<open>ensure_pip_packages\<close> on a host where the three tools are present.\<close>

definition log_tools_present :: "event list" where
  "log_tools_present =
     [Print ''>>> /usr/bin/python3 -m pip install -U pip'',
      Spawn [''/usr/bin/python3'', ''-m'', ''pip'', ''install'', ''-U'', ''pip''] Inherit,
      Spawn [''pre-commit'', ''--version''] Devnull,
      Print ''>>> pre-commit already available'',
      Spawn [''/usr/bin/python3'', ''-c'', ''import nbstripout''] Devnull,
      Print ''>>> nbstripout already available'',
      Spawn [''nbautoexport'', ''--help''] Devnull,
      Print ''>>> nbautoexport already available'']"

section \<open>Properties\<close>

subsection \<open>Basic facts about the primitives\<close>

lemma has_cmd_result:
  "spawn h c Devnull (world s) = (r, w') \<Longrightarrow>
   has_cmd h c s = (Inr (r = Exited 0), s\<lparr>log := log s @ [Spawn c Devnull], world := w'\<rparr>)"
  by (cases r) (simp_all add: has_cmd_def subprocess_run_def Let_def)

lemma run_result:
  "spawn h c Inherit (world s) = (r, w') \<Longrightarrow>
   run h c check s =
     ((case r of
         ExecFailed \<Rightarrow> Inl OSError
       | Exited rc \<Rightarrow> if check \<and> rc \<noteq> 0 then Inl (SystemExit (Code rc)) else Inr rc),
      s\<lparr>log := log s @ [Print (''>>> '' @ join '' '' c), Spawn c Inherit], world := w'\<rparr>)"
  by (cases r)
     (simp_all add: run_def bind_py_def print_line_def subprocess_run_def return_py_def
        raise_py_def Let_def)

lemma has_cmd_eq:
  "has_cmd h c s =
     (Inr (fst (spawn h c Devnull (world s)) = Exited 0),
      s\<lparr>log := log s @ [Spawn c Devnull], world := snd (spawn h c Devnull (world s))\<rparr>)"
  by (rule has_cmd_result) simp

lemma run_eq:
  "run h c check s =
     ((case fst (spawn h c Inherit (world s)) of
         ExecFailed \<Rightarrow> Inl OSError
       | Exited rc \<Rightarrow> if check \<and> rc \<noteq> 0 then Inl (SystemExit (Code rc)) else Inr rc),
      s\<lparr>log := log s @ [Print (''>>> '' @ join '' '' c), Spawn c Inherit],
        world := snd (spawn h c Inherit (world s))\<rparr>)"
  by (rule run_result) simp

lemma body_result:
  assumes "well_formed_probe probe"
    and "spawn h (probe_command h probe) Devnull (world s) = (r, w')"
  shows "ensure_pip_packages_body h (pkg, probe) s =
     (if r = Exited 0 then print_line (''>>> '' @ pkg @ '' already available'')
      else bind_py (print_line (''>>> Installing '' @ pkg)) (\<lambda>_. pip_install h pkg))
       (s\<lparr>log := log s @ [Spawn (probe_command h probe) Devnull], world := w'\<rparr>)"
proof (cases "probe ! 0 = ''python''")
  case True
  with assms(1) have len: "0 < length probe" "2 < length probe"
    by (auto simp: well_formed_probe_def split: if_splits)
  from True assms(2) have sp: "spawn h [executable h, ''-c'', probe ! 2] Devnull (world s) = (r, w')"
    by (simp add: probe_command_def)
  show ?thesis
    using True len has_cmd_result [OF sp]
    by (simp add: ensure_pip_packages_body_def index_py_def bind_py_def return_py_def
        probe_command_def)
next
  case False
  with assms(1) have len: "0 < length probe"
    by (auto simp: well_formed_probe_def split: if_splits)
  from False assms(2) have sp: "spawn h probe Devnull (world s) = (r, w')"
    by (simp add: probe_command_def)
  show ?thesis
    using False len has_cmd_result [OF sp]
    by (simp add: ensure_pip_packages_body_def index_py_def bind_py_def return_py_def
        probe_command_def)
qed

lemma pip_install_result:
  "spawn h (pip_command h pkg) Inherit (world s) = (r, w') \<Longrightarrow>
   pip_install h pkg s =
     ((case r of ExecFailed \<Rightarrow> Inl OSError
       | Exited rc \<Rightarrow> if rc \<noteq> 0 then Inl (SystemExit (Code rc)) else Inr ()),
      s\<lparr>log := log s @ [Print (''>>> '' @ join '' '' (pip_command h pkg)),
                          Spawn (pip_command h pkg) Inherit], world := w'\<rparr>)"
  unfolding pip_install_def pip_command_def [symmetric]
  by (cases r) (simp_all add: bind_py_def run_result return_py_def)

lemma needed_well_formed: "(pkg, probe) \<in> set needed \<Longrightarrow> well_formed_probe probe"
  by (auto simp: needed_def well_formed_probe_def)

lemma ensure_git_repo_result:
  assumes "spawn h [''git'', ''--version''] Devnull (world s) = (r1, w1)"
  shows "ensure_git_repo h s =
     (if r1 \<noteq> Exited 0
      then (Inl (SystemExit (Msg ''ERROR: git is not installed or not in PATH.'')),
            s\<lparr>log := log s @ [Spawn [''git'', ''--version''] Devnull], world := w1\<rparr>)
      else bind_py (has_cmd h [''git'', ''rev-parse'', ''--is-inside-work-tree'']) (\<lambda>inside.
             if inside then print_line ''>>> git already initialized''
             else bind_py (run h [''git'', ''init''] True) (\<lambda>_. return_py ()))
           (s\<lparr>log := log s @ [Spawn [''git'', ''--version''] Devnull], world := w1\<rparr>))"
  using has_cmd_result [OF assms]
  by (simp add: ensure_git_repo_def bind_py_def raise_py_def)

lemmas eval_defs =
  host_of_def state_with_def main_def ensure_pip_packages_def ensure_git_repo_def
  write_precommit_config_def install_hooks_and_configure_def ensure_pip_packages_body_def
  needed_def pip_install_def run_def has_cmd_def subprocess_run_def bind_py_def return_py_def
  raise_py_def print_line_def index_py_def path_exists_def write_text_def Let_def cfg_def

lemma pip_git_init_fails:
  "ensure_pip_packages host_git_init_fails (state_with Map.empty) =
     (Inr (), \<lparr>log = log_tools_present, world = \<lparr>files = Map.empty, ext = ()\<rparr>\<rparr>)"
  by (simp add: eval_defs host_git_init_fails_def log_tools_present_def)

lemma write_precommit_config_returns: "fst (write_precommit_config s) = Inr ()"
  by (simp add: write_precommit_config_def bind_py_def path_exists_def print_line_def
      write_text_def)

lemma body_eq:
  "well_formed_probe probe \<Longrightarrow>
   ensure_pip_packages_body h (pkg, probe) s =
     (if fst (spawn h (probe_command h probe) Devnull (world s)) = Exited 0
      then print_line (''>>> '' @ pkg @ '' already available'')
      else bind_py (print_line (''>>> Installing '' @ pkg)) (\<lambda>_. pip_install h pkg))
       (s\<lparr>log := log s @ [Spawn (probe_command h probe) Devnull],
          world := snd (spawn h (probe_command h probe) Devnull (world s))\<rparr>)"
  by (rule body_result) simp_all

lemma pip_install_eq:
  "pip_install h pkg s =
     ((case fst (spawn h (pip_command h pkg) Inherit (world s)) of
         ExecFailed \<Rightarrow> Inl OSError
       | Exited rc \<Rightarrow> if rc \<noteq> 0 then Inl (SystemExit (Code rc)) else Inr ()),
      s\<lparr>log := log s @ [Print (''>>> '' @ join '' '' (pip_command h pkg)),
                          Spawn (pip_command h pkg) Inherit],
        world := snd (spawn h (pip_command h pkg) Inherit (world s))\<rparr>)"
  by (rule pip_install_result) simp

lemma pip_no_git:
  "ensure_pip_packages host_no_git (state_with Map.empty) =
     (Inr (), \<lparr>log = log_tools_present, world = \<lparr>files = Map.empty, ext = ()\<rparr>\<rparr>)"
  by (simp add: eval_defs host_no_git_def log_tools_present_def)

lemma pip_hooks_fail:
  "ensure_pip_packages host_hooks_fail (state_with Map.empty) =
     (Inr (), \<lparr>log = log_tools_present, world = \<lparr>files = Map.empty, ext = ()\<rparr>\<rparr>)"
  by (simp add: eval_defs host_hooks_fail_def log_tools_present_def)

lemma git_hooks_fail:
  "ensure_git_repo host_hooks_fail \<lparr>log = l, world = \<lparr>files = Map.empty, ext = ()\<rparr>\<rparr> =
     (Inr (), \<lparr>log = l @ [Spawn [''git'', ''--version''] Devnull,
                         Spawn [''git'', ''rev-parse'', ''--is-inside-work-tree''] Devnull,
                         Print ''>>> git already initialized''],
              world = \<lparr>files = Map.empty, ext = ()\<rparr>\<rparr>)"
  by (simp add: eval_defs host_hooks_fail_def)

lemma new_events_append [simp]:
  "new_events s (s'\<lparr>log := log s @ evs, world := w\<rparr>) = evs"
  "new_events s (s'\<lparr>log := log s @ evs\<rparr>) = evs"
  by (simp_all add: new_events_def)

lemma echoed_Print_Cons: "echoed must b \<Longrightarrow> echoed must (Print l # b)"
proof (cases b)
  case Nil
  then show ?thesis by simp
next
  case (Cons e es)
  assume "echoed must b"
  with Cons show ?thesis by (cases e) (auto split: if_splits)
qed

lemma echoed_append: "echoed must a \<Longrightarrow> echoed must b \<Longrightarrow> echoed must (a @ b)"
  by (induction must a rule: echoed.induct) (auto split: if_splits simp: echoed_Print_Cons)

lemma growsI: "(\<And>s. \<exists>evs. log (snd (m s)) = log s @ evs \<and> P evs) \<Longrightarrow> grows P m"
  by (simp add: grows_def)

lemma grows_return: "P [] \<Longrightarrow> grows P (return_py x)"
  by (simp add: grows_def return_py_def)

lemma grows_raise: "P [] \<Longrightarrow> grows P (raise_py e)"
  by (simp add: grows_def raise_py_def)

lemma grows_bind:
  assumes m: "grows P m" and f: "\<And>x. grows P (f x)"
    and app: "\<And>a b. P a \<Longrightarrow> P b \<Longrightarrow> P (a @ b)"
  shows "grows P (bind_py m f)"
proof (rule growsI)
  fix s
  obtain r s1 where ms: "m s = (r, s1)" by (cases "m s")
  from m obtain e1 where e1: "log s1 = log s @ e1" "P e1"
    using ms by (fastforce simp: grows_def dest: spec [of _ s])
  show "\<exists>evs. log (snd (bind_py m f s)) = log s @ evs \<and> P evs"
  proof (cases r)
    case (Inl e)
    with ms e1 show ?thesis by (auto simp: bind_py_def)
  next
    case (Inr x)
    from f [of x] obtain e2 where e2: "log (snd (f x s1)) = log s1 @ e2" "P e2"
      by (auto simp: grows_def)
    have "log (snd (bind_py m f s)) = log s @ (e1 @ e2)"
      using ms Inr e1 e2 by (simp add: bind_py_def)
    moreover have "P (e1 @ e2)" using e1 e2 by (rule_tac app)
    ultimately show ?thesis by blast
  qed
qed

lemma grows_if: "grows P a \<Longrightarrow> grows P b \<Longrightarrow> grows P (if c then a else b)"
  by simp

lemma grows_print: "P [Print l] \<Longrightarrow> grows P (print_line l)"
  by (simp add: grows_def print_line_def)

lemma grows_has_cmd: "P [Spawn c Devnull] \<Longrightarrow> grows P (has_cmd h c)"
  by (simp add: grows_def has_cmd_eq)

lemma grows_run:
  "P [Print (''>>> '' @ join '' '' c), Spawn c Inherit] \<Longrightarrow> grows P (run h c check)"
  by (simp add: grows_def run_eq)

lemma grows_index: "P [] \<Longrightarrow> grows P (index_py xs i)"
  by (simp add: index_py_def grows_return grows_raise)

lemma grows_path_exists: "P [] \<Longrightarrow> grows P (path_exists p)"
  by (simp add: grows_def path_exists_def)

lemma grows_write_text: "P [WriteText p c] \<Longrightarrow> grows P (write_text p c)"
  by (simp add: grows_def write_text_def)

lemma run_commands_simps [simp]: "run_commands Inherit" "\<not> run_commands Devnull"
  by (simp_all add: run_commands_def)

lemmas grows_intros =
  grows_bind grows_if grows_return grows_raise grows_print grows_has_cmd grows_run grows_index
  grows_path_exists grows_write_text

lemma echoed_run_body:
  "grows (echoed run_commands) (ensure_pip_packages_body h x)"
  unfolding ensure_pip_packages_body_def pip_install_def
  by (cases x) (auto intro!: grows_intros echoed_append)

lemma echoed_run_loop:
  "grows (echoed run_commands) (ensure_pip_packages_loop h xs)"
  by (induction xs) (auto intro!: grows_intros echoed_append echoed_run_body)

lemma echoed_run_main: "grows (echoed run_commands) (main h)"
  unfolding main_def ensure_pip_packages_def ensure_git_repo_def write_precommit_config_def
    install_hooks_and_configure_def
  by (auto intro!: grows_intros echoed_append echoed_run_loop)

lemma probes_of_append: "probes_of (a @ b) = probes_of a @ probes_of b"
  by (induction a rule: probes_of.induct) simp_all

lemma new_events_eq: "log s' = log s @ evs \<Longrightarrow> new_events s s' = evs"
  by (simp add: new_events_def)

lemma body_probes:
  assumes "well_formed_probe probe"
  shows "\<exists>evs. log (snd (ensure_pip_packages_body h (pkg, probe) s)) = log s @ evs
           \<and> probes_of evs = [probe_command h probe]"
  by (simp add: body_eq [OF assms] print_line_def bind_py_def pip_install_eq)

lemma loop_probes:
  "(\<forall>x \<in> set xs. well_formed_probe (snd x)) \<Longrightarrow>
   \<exists>evs n. log (snd (ensure_pip_packages_loop h xs s)) = log s @ evs
     \<and> n \<le> length xs
     \<and> probes_of evs = take n (map (\<lambda>x. probe_command h (snd x)) xs)
     \<and> (fst (ensure_pip_packages_loop h xs s) = Inr () \<longrightarrow> n = length xs)"
proof (induction xs arbitrary: s)
  case Nil
  then show ?case by (simp add: return_py_def)
next
  case (Cons x xs)
  obtain pkg probe where x: "x = (pkg, probe)" by (cases x)
  with Cons.prems have wf: "well_formed_probe probe" by simp
  obtain r1 s1 where b: "ensure_pip_packages_body h (pkg, probe) s = (r1, s1)"
    by (cases "ensure_pip_packages_body h (pkg, probe) s")
  from body_probes [OF wf, of h pkg s] b
  obtain e1 where e1: "log s1 = log s @ e1" "probes_of e1 = [probe_command h probe]"
    by auto
  show ?case
  proof (cases r1)
    case (Inl e)
    have "log (snd (ensure_pip_packages_loop h (x # xs) s)) = log s @ e1"
      and "fst (ensure_pip_packages_loop h (x # xs) s) \<noteq> Inr ()"
      using b Inl e1 x by (simp_all add: bind_py_def)
    moreover have "probes_of e1 = take 1 (map (\<lambda>x. probe_command h (snd x)) (x # xs))"
      using e1 x by simp
    moreover have "(1::nat) \<le> length (x # xs)" by simp
    ultimately show ?thesis by blast
  next
    case (Inr u)
    from Cons.prems have "\<forall>x \<in> set xs. well_formed_probe (snd x)" by simp
    from Cons.IH [OF this, of s1]
    obtain e2 n where e2: "log (snd (ensure_pip_packages_loop h xs s1)) = log s1 @ e2"
        "n \<le> length xs"
        "probes_of e2 = take n (map (\<lambda>x. probe_command h (snd x)) xs)"
        "fst (ensure_pip_packages_loop h xs s1) = Inr () \<longrightarrow> n = length xs"
      by blast
    have l: "ensure_pip_packages_loop h (x # xs) s = ensure_pip_packages_loop h xs s1"
      using b Inr x by (simp add: bind_py_def)
    have "log (snd (ensure_pip_packages_loop h (x # xs) s)) = log s @ (e1 @ e2)"
      using l e1 e2 by simp
    moreover have "probes_of (e1 @ e2) = take (Suc n) (map (\<lambda>x. probe_command h (snd x)) (x # xs))"
      using e1 e2 x by (simp add: probes_of_append)
    moreover have "Suc n \<le> length (x # xs)" using e2 by simp
    moreover have "fst (ensure_pip_packages_loop h (x # xs) s) = Inr () \<longrightarrow> Suc n = length (x # xs)"
      using l e2 by simp
    ultimately show ?thesis by blast
  qed
qed

lemma needed_probe_commands: "map (\<lambda>x. probe_command h (snd x)) needed = issued_probes h"
  by (simp add: needed_def probe_command_def issued_probes_def)

lemma pip_probes:
  "\<exists>evs n. log (snd (ensure_pip_packages h s)) = log s @ evs
     \<and> n \<le> 3
     \<and> probes_of evs = take n (issued_probes h)
     \<and> (fst (ensure_pip_packages h s) = Inr () \<longrightarrow> n = 3)"
proof -
  let ?c = "[executable h, ''-m'', ''pip'', ''install'', ''-U'', ''pip'']"
  obtain r1 s1 where r: "run h ?c False s = (r1, s1)" by (cases "run h ?c False s")
  then have e1: "log s1 = log s @ [Print (''>>> '' @ join '' '' ?c), Spawn ?c Inherit]"
    by (auto simp: run_eq)
  show ?thesis
  proof (cases r1)
    case (Inl e)
    have "log (snd (ensure_pip_packages h s)) = log s @ [Print (''>>> '' @ join '' '' ?c), Spawn ?c Inherit]"
      and "fst (ensure_pip_packages h s) \<noteq> Inr ()"
      using r Inl e1 by (simp_all add: ensure_pip_packages_def bind_py_def)
    moreover have "probes_of [Print (''>>> '' @ join '' '' ?c), Spawn ?c Inherit] = take 0 (issued_probes h)"
      by simp
    ultimately show ?thesis by (metis le0)
  next
    case (Inr rc)
    have wf: "\<forall>x \<in> set needed. well_formed_probe (snd x)"
      using needed_well_formed by auto
    from loop_probes [OF wf, of h s1]
    obtain e2 n where e2: "log (snd (ensure_pip_packages_loop h needed s1)) = log s1 @ e2"
        "n \<le> length needed"
        "probes_of e2 = take n (issued_probes h)"
        "fst (ensure_pip_packages_loop h needed s1) = Inr () \<longrightarrow> n = length needed"
      unfolding needed_probe_commands by blast
    have p: "ensure_pip_packages h s = ensure_pip_packages_loop h needed s1"
      using r Inr by (simp add: ensure_pip_packages_def bind_py_def)
    have "log (snd (ensure_pip_packages h s)) =
            log s @ ([Print (''>>> '' @ join '' '' ?c), Spawn ?c Inherit] @ e2)"
      using p e1 e2 by simp
    moreover have "probes_of ([Print (''>>> '' @ join '' '' ?c), Spawn ?c Inherit] @ e2) =
            take n (issued_probes h)"
      using e2 by simp
    moreover have "n \<le> 3" using e2 by (simp add: needed_def)
    moreover have "fst (ensure_pip_packages h s) = Inr () \<longrightarrow> n = 3"
      using p e2 by (simp add: needed_def)
    ultimately show ?thesis by blast
  qed
qed

lemma pip_all_present:
  "ensure_pip_packages host_all_present (state_with Map.empty) =
     (Inr (), \<lparr>log = log_tools_present, world = \<lparr>files = Map.empty, ext = ()\<rparr>\<rparr>)"
  by (simp add: eval_defs host_all_present_def log_tools_present_def)

lemma main_all_present:
  "main host_all_present (state_with Map.empty) =
     (Inr (),
      \<lparr>log = log_tools_present @
         [Spawn [''git'', ''--version''] Devnull,
          Spawn [''git'', ''rev-parse'', ''--is-inside-work-tree''] Devnull,
          Print ''>>> git already initialized'',
          WriteText ''.pre-commit-config.yaml'' spec_payload,
          Print ''>>> wrote .pre-commit-config.yaml'',
          Spawn [''pre-commit'', ''--version''] Devnull,
          Print ''>>> pre-commit install'',
          Spawn [''pre-commit'', ''install''] Inherit,
          Spawn [''nbautoexport'', ''--help''] Devnull,
          Print ''>>> nbautoexport configure -f script notebooks'',
          Spawn [''nbautoexport'', ''configure'', ''-f'', ''script'', ''notebooks''] Inherit,
          Print ''>>> git_tools done''],
       world = \<lparr>files = [''.pre-commit-config.yaml'' \<mapsto> spec_payload], ext = ()\<rparr>\<rparr>)"
  by (simp add: eval_defs host_all_present_def log_tools_present_def spec_payload_def)


subsection \<open>The claims\<close>

text \<open>
  C7. \<open>has_cmd\<close> always returns a boolean and never raises: for every command and state
  the result is \<open>Inr b\<close>, where \<open>b\<close> is true exactly when the child ran and exited
  with return code 0; a non-zero return code and a failure to start the child both give
  false. Its only effects are the start of the child (streams discarded) and whatever the
  child did to the world.
\<close>

theorem has_cmd_total:
  "has_cmd h c s =
     (case spawn h c Devnull (world s) of
        (Exited rc, w') \<Rightarrow>
          (Inr (rc = 0), s\<lparr>log := log s @ [Spawn c Devnull], world := w'\<rparr>)
      | (ExecFailed, w') \<Rightarrow>
          (Inr False, s\<lparr>log := log s @ [Spawn c Devnull], world := w'\<rparr>))"
proof (cases "spawn h c Devnull (world s)")
  case (Pair r w')
  then show ?thesis
    by (cases r) (simp_all add: has_cmd_result [OF Pair])
qed

text \<open>
  C2. When \<open>.pre-commit-config.yaml\<close> exists, whatever its content,
  \<open>write_precommit_config\<close> returns normally after printing one status line: the world,
  and so the file's content, is the same before and after, and nothing is written.
\<close>

theorem write_precommit_config_existing:
  assumes "files (world s) cfg = Some old"
  shows "write_precommit_config s =
           (Inr (), s\<lparr>log := log s @ [Print ''>>> .pre-commit-config.yaml already exists'']\<rparr>)
         \<and> world (snd (write_precommit_config s)) = world s
         \<and> files (world (snd (write_precommit_config s))) cfg = Some old"
  using assms
  by (simp add: write_precommit_config_def bind_py_def path_exists_def print_line_def)

theorem write_precommit_config_existing_witness:
  "files (world (state_with [cfg \<mapsto> ''# mine''])) cfg = Some ''# mine''
   \<and> write_precommit_config (state_with [cfg \<mapsto> ''# mine'']) =
       (Inr (), \<lparr>log = [Print ''>>> .pre-commit-config.yaml already exists''],
                 world = \<lparr>files = [cfg \<mapsto> ''# mine''], ext = ()\<rparr>\<rparr>)"
proof -
  have h: "files (world (state_with [cfg \<mapsto> ''# mine''])) cfg = Some ''# mine''"
    by (simp add: state_with_def)
  show ?thesis
    using h write_precommit_config_existing [OF h] by (simp add: state_with_def)
qed

text \<open>
  C8. When \<open>.pre-commit-config.yaml\<close> is absent, \<open>write_precommit_config\<close> creates it
  with the fixed payload of the specification (the five lines, each ended by a newline),
  whatever the state and the host, prints the status line and returns normally.
\<close>

theorem write_precommit_config_absent:
  assumes "files (world s) cfg = None"
  shows "write_precommit_config s =
           (Inr (),
            s\<lparr>log := log s @ [WriteText cfg spec_payload,
                                Print ''>>> wrote .pre-commit-config.yaml''],
              world := (world s)\<lparr>files := (files (world s))(cfg \<mapsto> spec_payload)\<rparr>\<rparr>)"
  using assms
  by (simp add: write_precommit_config_def bind_py_def path_exists_def print_line_def
      write_text_def spec_payload_def)

theorem write_precommit_config_absent_witness:
  "files (world (state_with Map.empty)) cfg = None
   \<and> files (world (snd (write_precommit_config (state_with Map.empty)))) ''.pre-commit-config.yaml''
       = Some (''repos:'' @ [CHR 0x0A] @
               ''  - repo: https://github.com/kynan/nbstripout'' @ [CHR 0x0A] @
               ''    rev: 0.6.1'' @ [CHR 0x0A] @
               ''    hooks:'' @ [CHR 0x0A] @
               ''      - id: nbstripout'' @ [CHR 0x0A])"
proof -
  have h: "files (world (state_with Map.empty)) cfg = None"
    by (simp add: state_with_def)
  show ?thesis
    using h write_precommit_config_absent [OF h]
    by (simp add: state_with_def spec_payload_def cfg_def)
qed

text \<open>
  C1. Let a child exit with a non-zero return code \<open>rc\<close>. Then \<open>run\<close> with
  \<open>check = True\<close> raises \<open>SystemExit(rc)\<close> right after the child, and whatever follows
  the call is not executed; with \<open>check = False\<close> it returns \<open>rc\<close> and the rest of the
  caller runs on. In particular, when the dependency step has returned, git is present,
  the directory is not a working tree and \<open>git init\<close> exits with \<open>rc\<close>, the whole script
  ends with \<open>SystemExit(rc)\<close> right after \<open>git init\<close>, and its exit status is \<open>rc\<close>.
\<close>

theorem run_exit_code:
  assumes "rc \<noteq> 0"
  shows "(spawn h c Inherit (world s) = (Exited rc, w') \<longrightarrow>
            run h c True s =
              (Inl (SystemExit (Code rc)),
               s\<lparr>log := log s @ [Print (''>>> '' @ join '' '' c), Spawn c Inherit], world := w'\<rparr>)
          \<and> bind_py (run h c True) k s =
              (Inl (SystemExit (Code rc)),
               s\<lparr>log := log s @ [Print (''>>> '' @ join '' '' c), Spawn c Inherit], world := w'\<rparr>)
          \<and> exit_status (Inl (SystemExit (Code rc))) = rc
          \<and> run h c False s =
              (Inr rc,
               s\<lparr>log := log s @ [Print (''>>> '' @ join '' '' c), Spawn c Inherit], world := w'\<rparr>)
          \<and> bind_py (run h c False) k s =
              k rc (s\<lparr>log := log s @ [Print (''>>> '' @ join '' '' c), Spawn c Inherit],
                      world := w'\<rparr>))
       \<and> (ensure_pip_packages h s0 = (Inr (), t0)
          \<and> spawn h [''git'', ''--version''] Devnull (world t0) = (Exited 0, w1)
          \<and> spawn h [''git'', ''rev-parse'', ''--is-inside-work-tree''] Devnull w1 = (r2, w2)
          \<and> r2 \<noteq> Exited 0
          \<and> spawn h [''git'', ''init''] Inherit w2 = (Exited rc, w3) \<longrightarrow>
            main h s0 =
              (Inl (SystemExit (Code rc)),
               t0\<lparr>log := log t0 @ [Spawn [''git'', ''--version''] Devnull,
                                    Spawn [''git'', ''rev-parse'', ''--is-inside-work-tree''] Devnull,
                                    Print ''>>> git init'',
                                    Spawn [''git'', ''init''] Inherit],
                  world := w3\<rparr>)
          \<and> exit_status (fst (main h s0)) = rc)"
proof (intro conjI impI)
  assume sp: "spawn h c Inherit (world s) = (Exited rc, w')"
  show "run h c True s =
          (Inl (SystemExit (Code rc)),
           s\<lparr>log := log s @ [Print (''>>> '' @ join '' '' c), Spawn c Inherit], world := w'\<rparr>)"
    using assms sp by (simp add: run_eq)
  then show "bind_py (run h c True) k s =
          (Inl (SystemExit (Code rc)),
           s\<lparr>log := log s @ [Print (''>>> '' @ join '' '' c), Spawn c Inherit], world := w'\<rparr>)"
    by (simp add: bind_py_def)
  show "exit_status (Inl (SystemExit (Code rc))) = rc"
    by simp
  show "run h c False s =
          (Inr rc,
           s\<lparr>log := log s @ [Print (''>>> '' @ join '' '' c), Spawn c Inherit], world := w'\<rparr>)"
    using sp by (simp add: run_eq)
  then show "bind_py (run h c False) k s =
          k rc (s\<lparr>log := log s @ [Print (''>>> '' @ join '' '' c), Spawn c Inherit],
                  world := w'\<rparr>)"
    by (simp add: bind_py_def)
next
  assume a: "ensure_pip_packages h s0 = (Inr (), t0)
      \<and> spawn h [''git'', ''--version''] Devnull (world t0) = (Exited 0, w1)
      \<and> spawn h [''git'', ''rev-parse'', ''--is-inside-work-tree''] Devnull w1 = (r2, w2)
      \<and> r2 \<noteq> Exited 0
      \<and> spawn h [''git'', ''init''] Inherit w2 = (Exited rc, w3)"
  have git: "ensure_git_repo h t0 =
              (Inl (SystemExit (Code rc)),
               t0\<lparr>log := log t0 @ [Spawn [''git'', ''--version''] Devnull,
                                    Spawn [''git'', ''rev-parse'', ''--is-inside-work-tree''] Devnull,
                                    Print ''>>> git init'',
                                    Spawn [''git'', ''init''] Inherit],
                  world := w3\<rparr>)"
    using a assms
    by (simp add: ensure_git_repo_def bind_py_def has_cmd_eq run_eq raise_py_def return_py_def)
  show m: "main h s0 =
              (Inl (SystemExit (Code rc)),
               t0\<lparr>log := log t0 @ [Spawn [''git'', ''--version''] Devnull,
                                    Spawn [''git'', ''rev-parse'', ''--is-inside-work-tree''] Devnull,
                                    Print ''>>> git init'',
                                    Spawn [''git'', ''init''] Inherit],
                  world := w3\<rparr>)"
    using a git by (simp add: main_def bind_py_def)
  show "exit_status (fst (main h s0)) = rc"
    by (simp add: m)
qed

theorem run_exit_code_witness:
  "(7::int) \<noteq> 0
   \<and> run host_git_init_fails [''git'', ''init''] True (state_with Map.empty) =
       (Inl (SystemExit (Code 7)),
        \<lparr>log = [Print ''>>> git init'', Spawn [''git'', ''init''] Inherit],
         world = \<lparr>files = Map.empty, ext = ()\<rparr>\<rparr>)
   \<and> run host_git_init_fails [''git'', ''init''] False (state_with Map.empty) =
       (Inr 7,
        \<lparr>log = [Print ''>>> git init'', Spawn [''git'', ''init''] Inherit],
         world = \<lparr>files = Map.empty, ext = ()\<rparr>\<rparr>)
   \<and> fst (main host_git_init_fails (state_with Map.empty)) = Inl (SystemExit (Code 7))
   \<and> exit_status (fst (main host_git_init_fails (state_with Map.empty))) = 7"
proof -
  let ?w = "\<lparr>files = Map.empty, ext = ()\<rparr> :: unit world"
  let ?t0 = "\<lparr>log = log_tools_present, world = ?w\<rparr>"
  have nz: "(7::int) \<noteq> 0" by simp
  have h1: "spawn host_git_init_fails [''git'', ''init''] Inherit (world (state_with Map.empty)) =
              (Exited 7, ?w)"
    by (simp add: host_git_init_fails_def host_of_def state_with_def)
  have h2: "spawn host_git_init_fails [''git'', ''--version''] Devnull (world ?t0) = (Exited 0, ?w)"
    by (simp add: host_git_init_fails_def host_of_def)
  have h3: "spawn host_git_init_fails [''git'', ''rev-parse'', ''--is-inside-work-tree''] Devnull ?w =
              (Exited 128, ?w)"
    by (simp add: host_git_init_fails_def host_of_def)
  have h4: "Exited 128 \<noteq> Exited 0" by simp
  have h5: "spawn host_git_init_fails [''git'', ''init''] Inherit ?w = (Exited 7, ?w)"
    by (simp add: host_git_init_fails_def host_of_def)
  note t = run_exit_code [OF nz, of host_git_init_fails "[''git'', ''init'']" "state_with Map.empty"
      ?w return_py "state_with Map.empty" ?t0 ?w "Exited 128" ?w ?w]
  from t h1 have a: "run host_git_init_fails [''git'', ''init''] True (state_with Map.empty) =
       (Inl (SystemExit (Code 7)),
        (state_with Map.empty)\<lparr>log := log (state_with Map.empty) @ [Print (''>>> '' @ join '' '' [''git'', ''init'']), Spawn [''git'', ''init''] Inherit], world := ?w\<rparr>)"
    and b: "run host_git_init_fails [''git'', ''init''] False (state_with Map.empty) =
       (Inr 7,
        (state_with Map.empty)\<lparr>log := log (state_with Map.empty) @ [Print (''>>> '' @ join '' '' [''git'', ''init'']), Spawn [''git'', ''init''] Inherit], world := ?w\<rparr>)"
    by blast+
  from t pip_git_init_fails h2 h3 h4 h5
  have c: "exit_status (fst (main host_git_init_fails (state_with Map.empty))) = 7"
    and d: "main host_git_init_fails (state_with Map.empty) = 
              (Inl (SystemExit (Code 7)),
               ?t0\<lparr>log := log ?t0 @ [Spawn [''git'', ''--version''] Devnull,
                                    Spawn [''git'', ''rev-parse'', ''--is-inside-work-tree''] Devnull,
                                    Print ''>>> git init'',
                                    Spawn [''git'', ''init''] Inherit],
                  world := ?w\<rparr>)"
    by blast+
  show ?thesis
    using a b c d by (simp add: state_with_def)
qed

text \<open>
  C3. When the probe \<open>git --version\<close> does not succeed (the binary cannot be started, or it
  exits non-zero), \<open>ensure_git_repo\<close> raises \<open>SystemExit\<close> with the message
  \<open>ERROR: git is not installed or not in PATH.\<close> and the script ends there: the probe is
  the last thing it did (no detection, no \<open>git init\<close>, no file write, no hook or export
  step), the message is what the interpreter prints, the exit status is 1, and the
  exception is not the \<open>SystemExit(rc)\<close> of a failed command.
\<close>

theorem git_missing_aborts:
  assumes "spawn h [''git'', ''--version''] Devnull (world t0) = (r, w1)"
    and "r \<noteq> Exited 0"
  shows "ensure_git_repo h t0 =
           (Inl (SystemExit (Msg ''ERROR: git is not installed or not in PATH.'')),
            t0\<lparr>log := log t0 @ [Spawn [''git'', ''--version''] Devnull], world := w1\<rparr>)
       \<and> (ensure_pip_packages h s0 = (Inr (), t0) \<longrightarrow>
            main h s0 =
              (Inl (SystemExit (Msg ''ERROR: git is not installed or not in PATH.'')),
               t0\<lparr>log := log t0 @ [Spawn [''git'', ''--version''] Devnull], world := w1\<rparr>)
          \<and> exit_message (fst (main h s0)) = Some ''ERROR: git is not installed or not in PATH.''
          \<and> exit_status (fst (main h s0)) = 1
          \<and> (\<forall>rc. fst (main h s0) \<noteq> Inl (SystemExit (Code rc))))"
proof -
  have g: "ensure_git_repo h t0 =
           (Inl (SystemExit (Msg ''ERROR: git is not installed or not in PATH.'')),
            t0\<lparr>log := log t0 @ [Spawn [''git'', ''--version''] Devnull], world := w1\<rparr>)"
    using assms by (simp add: ensure_git_repo_result [OF assms(1)])
  have "main h s0 =
              (Inl (SystemExit (Msg ''ERROR: git is not installed or not in PATH.'')),
               t0\<lparr>log := log t0 @ [Spawn [''git'', ''--version''] Devnull], world := w1\<rparr>)"
    if "ensure_pip_packages h s0 = (Inr (), t0)"
    using that g by (simp add: main_def bind_py_def)
  with g show ?thesis by simp
qed

theorem git_missing_aborts_witness:
  "spawn host_no_git [''git'', ''--version''] Devnull \<lparr>files = Map.empty, ext = ()\<rparr> =
     (ExecFailed, \<lparr>files = Map.empty, ext = ()\<rparr>)
   \<and> ExecFailed \<noteq> Exited 0
   \<and> main host_no_git (state_with Map.empty) =
       (Inl (SystemExit (Msg ''ERROR: git is not installed or not in PATH.'')),
        \<lparr>log = log_tools_present @ [Spawn [''git'', ''--version''] Devnull],
         world = \<lparr>files = Map.empty, ext = ()\<rparr>\<rparr>)
   \<and> exit_status (fst (main host_no_git (state_with Map.empty))) = 1"
proof -
  let ?w = "\<lparr>files = Map.empty, ext = ()\<rparr> :: unit world"
  let ?t0 = "\<lparr>log = log_tools_present, world = ?w\<rparr>"
  have h1: "spawn host_no_git [''git'', ''--version''] Devnull (world ?t0) = (ExecFailed, ?w)"
    by (simp add: host_no_git_def host_of_def)
  have h2: "ExecFailed \<noteq> Exited 0" by simp
  show ?thesis
    using git_missing_aborts [OF h1 h2, of "state_with Map.empty"] h1 pip_no_git by simp
qed

text \<open>
  C4. Suppose that \<open>pre-commit install\<close> and \<open>nbautoexport configure\<close>, whenever they are
  started, exit with some return code (any code, zero or not). Then
  \<open>install_hooks_and_configure\<close> returns normally from every state; and once the first
  two steps of \<open>main\<close> have returned, \<open>main\<close> returns normally, its last output is the
  line \<open>>>> git_tools done\<close>, and the exit status is 0.
\<close>

theorem hooks_never_abort:
  assumes "\<forall>w. fst (spawn h [''pre-commit'', ''install''] Inherit w) \<noteq> ExecFailed"
    and "\<forall>w. fst (spawn h [''nbautoexport'', ''configure'', ''-f'', ''script'', ''notebooks'']
                    Inherit w) \<noteq> ExecFailed"
  shows "fst (install_hooks_and_configure h s) = Inr ()
       \<and> (ensure_pip_packages h s0 = (Inr (), t0) \<and> ensure_git_repo h t0 = (Inr (), t1) \<longrightarrow>
            fst (main h s0) = Inr ()
          \<and> last (log (snd (main h s0))) = Print ''>>> git_tools done''
          \<and> exit_status (fst (main h s0)) = 0)"
proof -
  have hooks: "fst (install_hooks_and_configure h s) = Inr ()" for s
    using assms
    by (simp add: install_hooks_and_configure_def bind_py_def has_cmd_eq run_eq return_py_def
        print_line_def split: proc_outcome.splits)
  have "fst (main h s0) = Inr ()
          \<and> last (log (snd (main h s0))) = Print ''>>> git_tools done''
          \<and> exit_status (fst (main h s0)) = 0"
    if a: "ensure_pip_packages h s0 = (Inr (), t0)" and b: "ensure_git_repo h t0 = (Inr (), t1)"
  proof -
    obtain t2 where w: "write_precommit_config t1 = (Inr (), t2)"
      using write_precommit_config_returns [of t1] by (cases "write_precommit_config t1") simp
    obtain t3 where i: "install_hooks_and_configure h t2 = (Inr (), t3)"
      using hooks [of t2] by (cases "install_hooks_and_configure h t2") simp
    have "main h s0 = (Inr (), t3\<lparr>log := log t3 @ [Print ''>>> git_tools done'']\<rparr>)"
      using a b w i by (simp add: main_def bind_py_def print_line_def)
    then show ?thesis by simp
  qed
  with hooks show ?thesis by blast
qed

theorem hooks_never_abort_witness:
  "spawn host_hooks_fail [''pre-commit'', ''install''] Inherit \<lparr>files = Map.empty, ext = ()\<rparr> =
     (Exited 1, \<lparr>files = Map.empty, ext = ()\<rparr>)
   \<and> spawn host_hooks_fail [''nbautoexport'', ''configure'', ''-f'', ''script'', ''notebooks'']
        Inherit \<lparr>files = Map.empty, ext = ()\<rparr> =
     (Exited 2, \<lparr>files = Map.empty, ext = ()\<rparr>)
   \<and> fst (main host_hooks_fail (state_with Map.empty)) = Inr ()
   \<and> last (log (snd (main host_hooks_fail (state_with Map.empty)))) = Print ''>>> git_tools done''
   \<and> exit_status (fst (main host_hooks_fail (state_with Map.empty))) = 0"
proof -
  have h1: "\<forall>w. fst (spawn host_hooks_fail [''pre-commit'', ''install''] Inherit w) \<noteq> ExecFailed"
    by (simp add: host_hooks_fail_def host_of_def)
  have h2: "\<forall>w. fst (spawn host_hooks_fail
                       [''nbautoexport'', ''configure'', ''-f'', ''script'', ''notebooks'']
                       Inherit w) \<noteq> ExecFailed"
    by (simp add: host_hooks_fail_def host_of_def)
  have sp: "spawn host_hooks_fail [''pre-commit'', ''install''] Inherit \<lparr>files = Map.empty, ext = ()\<rparr> =
     (Exited 1, \<lparr>files = Map.empty, ext = ()\<rparr>)"
    "spawn host_hooks_fail [''nbautoexport'', ''configure'', ''-f'', ''script'', ''notebooks'']
        Inherit \<lparr>files = Map.empty, ext = ()\<rparr> =
     (Exited 2, \<lparr>files = Map.empty, ext = ()\<rparr>)"
    by (simp_all add: host_hooks_fail_def host_of_def)
  show ?thesis
    using hooks_never_abort [OF h1 h2, of "state_with Map.empty" "state_with Map.empty"] pip_hooks_fail
      git_hooks_fail [of log_tools_present] sp
    by simp
qed

text \<open>
  C5. For every entry of \<open>needed\<close> whose probe exits with 0, the loop body only starts the
  probe and prints the \<open>already available\<close> line: the installer command for that package
  is not among the commands it starts. For the repository step with git present: when
  \<open>git rev-parse --is-inside-work-tree\<close> exits with 0, only the two probes run and the
  \<open>already initialized\<close> line is printed; and \<open>git init\<close> is started exactly when that
  probe did not succeed.
\<close>

theorem skip_when_present:
  "((pkg, probe) \<in> set needed
      \<and> spawn h (probe_command h probe) Devnull (world s) = (Exited 0, w') \<longrightarrow>
        ensure_pip_packages_body h (pkg, probe) s =
          (Inr (), s\<lparr>log := log s @ [Spawn (probe_command h probe) Devnull,
                                      Print (''>>> '' @ pkg @ '' already available'')],
                    world := w'\<rparr>)
      \<and> [executable h, ''-m'', ''pip'', ''install'', ''-U'', pkg]
          \<notin> set (spawned (new_events s (snd (ensure_pip_packages_body h (pkg, probe) s)))))
   \<and> (spawn h [''git'', ''--version''] Devnull (world t) = (Exited 0, w1)
      \<and> spawn h [''git'', ''rev-parse'', ''--is-inside-work-tree''] Devnull w1 = (r2, w2) \<longrightarrow>
        (r2 = Exited 0 \<longrightarrow>
           ensure_git_repo h t =
             (Inr (), t\<lparr>log := log t @ [Spawn [''git'', ''--version''] Devnull,
                                         Spawn [''git'', ''rev-parse'', ''--is-inside-work-tree''] Devnull,
                                         Print ''>>> git already initialized''],
                       world := w2\<rparr>))
      \<and> ([''git'', ''init''] \<in> set (spawned (new_events t (snd (ensure_git_repo h t))))
           \<longleftrightarrow> r2 \<noteq> Exited 0))"
proof (intro conjI impI)
  assume a: "(pkg, probe) \<in> set needed
      \<and> spawn h (probe_command h probe) Devnull (world s) = (Exited 0, w')"
  then have wf: "well_formed_probe probe"
    using needed_well_formed by blast
  from a have ne: "probe_command h probe \<noteq> [executable h, ''-m'', ''pip'', ''install'', ''-U'', pkg]"
    by (auto simp: needed_def probe_command_def)
  show b: "ensure_pip_packages_body h (pkg, probe) s =
          (Inr (), s\<lparr>log := log s @ [Spawn (probe_command h probe) Devnull,
                                      Print (''>>> '' @ pkg @ '' already available'')],
                    world := w'\<rparr>)"
    using a by (simp add: body_eq [OF wf] print_line_def)
  show "[executable h, ''-m'', ''pip'', ''install'', ''-U'', pkg]
          \<notin> set (spawned (new_events s (snd (ensure_pip_packages_body h (pkg, probe) s))))"
    using ne by (simp add: b) 
next
  assume a: "spawn h [''git'', ''--version''] Devnull (world t) = (Exited 0, w1)
      \<and> spawn h [''git'', ''rev-parse'', ''--is-inside-work-tree''] Devnull w1 = (r2, w2)"
  have g: "ensure_git_repo h t =
       (if r2 = Exited 0
        then (Inr (), t\<lparr>log := log t @ [Spawn [''git'', ''--version''] Devnull,
                                         Spawn [''git'', ''rev-parse'', ''--is-inside-work-tree''] Devnull,
                                         Print ''>>> git already initialized''],
                       world := w2\<rparr>)
        else (case fst (spawn h [''git'', ''init''] Inherit w2) of
                ExecFailed \<Rightarrow> Inl OSError
              | Exited rc \<Rightarrow> if rc \<noteq> 0 then Inl (SystemExit (Code rc)) else Inr (),
              t\<lparr>log := log t @ [Spawn [''git'', ''--version''] Devnull,
                                Spawn [''git'', ''rev-parse'', ''--is-inside-work-tree''] Devnull,
                                Print ''>>> git init'',
                                Spawn [''git'', ''init''] Inherit],
                world := snd (spawn h [''git'', ''init''] Inherit w2)\<rparr>))"
    using a
    by (simp add: ensure_git_repo_def bind_py_def has_cmd_eq run_eq raise_py_def return_py_def
        print_line_def split: proc_outcome.splits)
  show "ensure_git_repo h t =
             (Inr (), t\<lparr>log := log t @ [Spawn [''git'', ''--version''] Devnull,
                                         Spawn [''git'', ''rev-parse'', ''--is-inside-work-tree''] Devnull,
                                         Print ''>>> git already initialized''],
                       world := w2\<rparr>)" if "r2 = Exited 0"
    using that by (simp add: g)
  show "[''git'', ''init''] \<in> set (spawned (new_events t (snd (ensure_git_repo h t))))
           \<longleftrightarrow> r2 \<noteq> Exited 0"
    by (simp add: g)
qed

theorem skip_when_present_witness:
  "(''pre-commit'', [''pre-commit'', ''--version'']) \<in> set needed
   \<and> spawn host_all_present [''pre-commit'', ''--version''] Devnull
        (world (state_with Map.empty)) = (Exited 0, \<lparr>files = Map.empty, ext = ()\<rparr>)
   \<and> ensure_pip_packages_body host_all_present (''pre-commit'', [''pre-commit'', ''--version''])
        (state_with Map.empty) =
       (Inr (), \<lparr>log = [Spawn [''pre-commit'', ''--version''] Devnull,
                         Print ''>>> pre-commit already available''],
                 world = \<lparr>files = Map.empty, ext = ()\<rparr>\<rparr>)
   \<and> ensure_git_repo host_all_present (state_with Map.empty) =
       (Inr (), \<lparr>log = [Spawn [''git'', ''--version''] Devnull,
                         Spawn [''git'', ''rev-parse'', ''--is-inside-work-tree''] Devnull,
                         Print ''>>> git already initialized''],
                 world = \<lparr>files = Map.empty, ext = ()\<rparr>\<rparr>)
   \<and> [''git'', ''init'']
        \<notin> set (spawned (new_events (state_with Map.empty)
                          (snd (ensure_git_repo host_all_present (state_with Map.empty)))))"
proof -
  let ?w = "\<lparr>files = Map.empty, ext = ()\<rparr> :: unit world"
  have h1: "(''pre-commit'', [''pre-commit'', ''--version'']) \<in> set needed"
    by (simp add: needed_def)
  have pc: "probe_command host_all_present [''pre-commit'', ''--version''] = [''pre-commit'', ''--version'']"
    by (simp add: probe_command_def)
  have h2: "spawn host_all_present [''pre-commit'', ''--version''] Devnull
              (world (state_with Map.empty)) = (Exited 0, ?w)"
    by (simp add: host_all_present_def host_of_def state_with_def)
  have h3: "spawn host_all_present [''git'', ''--version''] Devnull
              (world (state_with Map.empty)) = (Exited 0, ?w)"
    by (simp add: host_all_present_def host_of_def state_with_def)
  have h4: "spawn host_all_present [''git'', ''rev-parse'', ''--is-inside-work-tree''] Devnull ?w
              = (Exited 0, ?w)"
    by (simp add: host_all_present_def host_of_def)
  show ?thesis
    using skip_when_present [of "''pre-commit''" "[''pre-commit'', ''--version'']"
        host_all_present "state_with Map.empty" ?w "state_with Map.empty" ?w "Exited 0" ?w]
      h1 h2 h3 h4 pc
    by (simp add: state_with_def new_events_def)
qed

text \<open>
  C10. The only entry of \<open>needed\<close> whose probe starts with \<open>python\<close> is the one for
  nbstripout, and the command probed for it is the listed probe with \<open>python\<close> replaced
  by \<open>sys.executable\<close>. For any probe whose first element is \<open>python\<close>, the first
  thing the loop body does is start \<open>[sys.executable, -c, probe[2]]\<close> with discarded
  output, and every command the body starts has \<open>sys.executable\<close> as its program.
\<close>

theorem import_probe_uses_sys_executable:
  "((pkg, probe) \<in> set needed \<and> probe ! 0 = ''python'' \<longrightarrow>
      pkg = ''nbstripout'' \<and> probe_command h probe = executable h # tl probe)
   \<and> (well_formed_probe probe \<and> probe ! 0 = ''python'' \<longrightarrow>
        hd (new_events s (snd (ensure_pip_packages_body h (pkg, probe) s))) =
          Spawn [executable h, ''-c'', probe ! 2] Devnull
      \<and> (\<forall>c \<in> set (spawned (new_events s (snd (ensure_pip_packages_body h (pkg, probe) s)))).
            hd c = executable h))"
proof (intro conjI impI)
  assume "(pkg, probe) \<in> set needed \<and> probe ! 0 = ''python''"
  then show "pkg = ''nbstripout''" and "probe_command h probe = executable h # tl probe"
    by (auto simp: needed_def probe_command_def)
next
  assume a: "well_formed_probe probe \<and> probe ! 0 = ''python''"
  then have wf: "well_formed_probe probe" and pc: "probe_command h probe = [executable h, ''-c'', probe ! 2]"
    by (simp_all add: probe_command_def)
  show "hd (new_events s (snd (ensure_pip_packages_body h (pkg, probe) s))) =
          Spawn [executable h, ''-c'', probe ! 2] Devnull"
    by (simp add: body_eq [OF wf] pc print_line_def bind_py_def pip_install_eq)
  show "\<forall>c \<in> set (spawned (new_events s (snd (ensure_pip_packages_body h (pkg, probe) s)))).
            hd c = executable h"
    by (simp add: body_eq [OF wf] pc print_line_def bind_py_def pip_install_eq pip_command_def)
qed

theorem import_probe_uses_sys_executable_witness:
  "(''nbstripout'', [''python'', ''-c'', ''import nbstripout'']) \<in> set needed
   \<and> well_formed_probe [''python'', ''-c'', ''import nbstripout'']
   \<and> hd (new_events (state_with Map.empty)
            (snd (ensure_pip_packages_body host_all_present
                    (''nbstripout'', [''python'', ''-c'', ''import nbstripout''])
                    (state_with Map.empty)))) =
       Spawn [''/usr/bin/python3'', ''-c'', ''import nbstripout''] Devnull"
proof -
  have h1: "(''nbstripout'', [''python'', ''-c'', ''import nbstripout'']) \<in> set needed"
    by (simp add: needed_def)
  have h2: "well_formed_probe [''python'', ''-c'', ''import nbstripout'']"
    by (simp add: well_formed_probe_def)
  have h3: "[''python'', ''-c'', ''import nbstripout''] ! 0 = ''python''"
    by simp
  show ?thesis
    using import_probe_uses_sys_executable [of "''nbstripout''"
        "[''python'', ''-c'', ''import nbstripout'']" host_all_present "state_with Map.empty"]
      h1 h2 h3
    by (simp add: host_all_present_def host_of_def)
qed

text \<open>
  C6, as stated, asks for two version-flag probes. The list has one: the probe for
  nbautoexport is \<open>nbautoexport --help\<close>, which is not a version-flag invocation.
\<close>

theorem probes_in_order_counterexample:
  "snd (needed ! 2) = [''nbautoexport'', ''--help'']
   \<and> \<not> version_flag_probe (snd (needed ! 2))
   \<and> \<not> (length (filter version_flag_probe (map snd needed)) = 2)"
  by (simp add: needed_def version_flag_probe_def eval_nat_numeral)

text \<open>
  C6, amended. \<open>needed\<close> lists exactly three tools in the order pre-commit, nbstripout,
  nbautoexport; the probe is a version-flag invocation (\<open>--version\<close>) for pre-commit, a
  language-level import check for nbstripout and a help-flag invocation (\<open>--help\<close>) for
  nbautoexport. In every run of \<open>ensure_pip_packages\<close> the probes started are an initial
  part of these three, in this order, and all three when the function returns normally.
\<close>

theorem probes_in_order:
  "map fst needed = [''pre-commit'', ''nbstripout'', ''nbautoexport'']
   \<and> map snd needed =
       [[''pre-commit'', ''--version''],
        [''python'', ''-c'', ''import nbstripout''],
        [''nbautoexport'', ''--help'']]
   \<and> version_flag_probe (snd (needed ! 0))
   \<and> import_check_probe (snd (needed ! 1))
   \<and> help_flag_probe (snd (needed ! 2))
   \<and> (\<exists>n \<le> 3. probes_of (new_events s (snd (ensure_pip_packages h s))) =
                  take n (issued_probes h))
   \<and> (fst (ensure_pip_packages h s) = Inr () \<longrightarrow>
        probes_of (new_events s (snd (ensure_pip_packages h s))) = issued_probes h)"
proof -
  from pip_probes [of h s]
  obtain evs n where p: "log (snd (ensure_pip_packages h s)) = log s @ evs" "n \<le> 3"
      "probes_of evs = take n (issued_probes h)"
      "fst (ensure_pip_packages h s) = Inr () \<longrightarrow> n = 3"
    by blast
  have ne: "new_events s (snd (ensure_pip_packages h s)) = evs"
    using p(1) by (rule new_events_eq)
  have a: "\<exists>n \<le> 3. probes_of (new_events s (snd (ensure_pip_packages h s))) =
                  take n (issued_probes h)"
    using p ne by auto
  have b: "fst (ensure_pip_packages h s) = Inr () \<longrightarrow>
        probes_of (new_events s (snd (ensure_pip_packages h s))) = issued_probes h"
    using p ne by (auto simp: issued_probes_def)
  have c: "map fst needed = [''pre-commit'', ''nbstripout'', ''nbautoexport'']"
    "map snd needed =
       [[''pre-commit'', ''--version''],
        [''python'', ''-c'', ''import nbstripout''],
        [''nbautoexport'', ''--help'']]"
    "version_flag_probe (snd (needed ! 0))"
    "import_check_probe (snd (needed ! 1))"
    "help_flag_probe (snd (needed ! 2))"
    by (simp_all add: needed_def version_flag_probe_def import_check_probe_def
        help_flag_probe_def eval_nat_numeral)
  from a b c show ?thesis by blast
qed

theorem probes_in_order_witness:
  "fst (ensure_pip_packages host_all_present (state_with Map.empty)) = Inr ()
   \<and> probes_of (new_events (state_with Map.empty)
                  (snd (ensure_pip_packages host_all_present (state_with Map.empty)))) =
       [[''pre-commit'', ''--version''],
        [''/usr/bin/python3'', ''-c'', ''import nbstripout''],
        [''nbautoexport'', ''--help'']]"
proof -
  have h1: "fst (ensure_pip_packages host_all_present (state_with Map.empty)) = Inr ()"
    by (simp add: pip_all_present)
  show ?thesis
    using probes_in_order [of "state_with Map.empty" host_all_present] h1
    by (simp add: issued_probes_def host_all_present_def host_of_def)
qed

text \<open>
  C9, as stated, includes the availability probes. \<open>has_cmd\<close> prints nothing: probing
  for git only starts \<open>git --version\<close>, so the log of a whole run holds commands that
  were started without an echo line before them.
\<close>

theorem run_commands_echoed_counterexample:
  "new_events (state_with Map.empty)
     (snd (has_cmd host_all_present [''git'', ''--version''] (state_with Map.empty))) =
     [Spawn [''git'', ''--version''] Devnull]
   \<and> \<not> echoed every_command
         (new_events (state_with Map.empty)
            (snd (has_cmd host_all_present [''git'', ''--version''] (state_with Map.empty))))
   \<and> \<not> echoed every_command
         (new_events (state_with Map.empty)
            (snd (main host_all_present (state_with Map.empty))))"
  unfolding main_all_present
  by (simp add: new_events_def state_with_def has_cmd_eq every_command_def
      log_tools_present_def)

text \<open>
  C9, amended. Every command started through \<open>run\<close> is echoed: in the log of any run of
  \<open>main\<close>, each child started with inherited streams comes directly after the printed
  line \<open>>>> \<close> followed by the command's words joined by spaces; \<open>run\<close> itself
  adds exactly that line and then the child. The probes of \<open>has_cmd\<close> are started
  without any output.
\<close>

theorem run_commands_echoed:
  "echoed run_commands (new_events s (snd (main h s)))
   \<and> new_events s (snd (run h c check s)) = [Print (''>>> '' @ join '' '' c), Spawn c Inherit]
   \<and> new_events s (snd (has_cmd h c s)) = [Spawn c Devnull]"
proof -
  from echoed_run_main [of h]
  obtain evs where "log (snd (main h s)) = log s @ evs" "echoed run_commands evs"
    by (auto simp: grows_def)
  then have "echoed run_commands (new_events s (snd (main h s)))"
    by (simp add: new_events_eq)
  then show ?thesis
    by (simp add: run_eq has_cmd_eq)
qed

theorem run_commands_echoed_witness:
  "echoed run_commands
     (new_events (state_with Map.empty) (snd (main host_all_present (state_with Map.empty))))
   \<and> new_events (state_with Map.empty)
       (snd (run host_all_present [''git'', ''init''] True (state_with Map.empty))) =
       [Print ''>>> git init'', Spawn [''git'', ''init''] Inherit]"
  using run_commands_echoed [of "state_with Map.empty" host_all_present "[''git'', ''init'']" True]
  by simp

end
